theory Spec2Isabelle
  imports Main "HOL-Library.Word" "HOL-Library.Sublist"
begin

unbundle bit_operations_syntax

section \<open>Values of the script\<close>

text \<open>
  A Python \<open>str\<close> is a sequence of Unicode code points; lone surrogates
  (\<open>0xD800\<close> to \<open>0xDFFF\<close>) are legal elements of a \<open>str\<close> and only fail when the
  string is encoded. The session id handed to \<open>get_thread_id\<close> is modelled as a list
  of code points for that reason. Text that the script only prints or logs is ASCII
  and kept as a HOL \<open>string\<close>; \<open>py\<close> reads such a literal as a Python \<open>str\<close>.
\<close>

type_synonym byte = "8 word"
type_synonym codepoint = nat
type_synonym pystr = "codepoint list"
type_synonym uuid = "128 word"

definition py :: "string \<Rightarrow> pystr" where
  "py s = map of_char s"

datatype error =
    UnicodeEncodeError nat
  | ValueError
  | KeyError string
  | LibraryError string

section \<open>The standard library underneath \<open>get_thread_id\<close>\<close>

subsection \<open>\<open>bytes(name, "utf-8")\<close>\<close>

definition is_surrogate :: "codepoint \<Rightarrow> bool" where
  "is_surrogate c = (0xD800 \<le> c \<and> c < 0xE000)"

definition utf8_char :: "codepoint \<Rightarrow> byte list option" where
  "utf8_char c =
     (if c < 0x80 then Some [of_nat c]
      else if c < 0x800 then Some [of_nat (0xC0 + c div 64), of_nat (0x80 + c mod 64)]
      else if is_surrogate c then None
      else if c < 0x10000 then
        Some [of_nat (0xE0 + c div 4096), of_nat (0x80 + c div 64 mod 64),
              of_nat (0x80 + c mod 64)]
      else
        Some [of_nat (0xF0 + c div 262144), of_nat (0x80 + c div 4096 mod 64),
              of_nat (0x80 + c div 64 mod 64), of_nat (0x80 + c mod 64)])"

text \<open>The encoder reports the position of the first code point it cannot encode.\<close>

fun utf8_from :: "nat \<Rightarrow> pystr \<Rightarrow> error + byte list" where
  "utf8_from i [] = Inr []"
| "utf8_from i (c # cs) =
     (case utf8_char c of
        None \<Rightarrow> Inl (UnicodeEncodeError i)
      | Some bs \<Rightarrow>
          (case utf8_from (Suc i) cs of
             Inl e \<Rightarrow> Inl e
           | Inr rest \<Rightarrow> Inr (bs @ rest)))"

definition bytes_utf8 :: "pystr \<Rightarrow> error + byte list" where
  "bytes_utf8 s = utf8_from 0 s"

subsection \<open>\<open>hashlib.sha1\<close>\<close>

definition rotl32 :: "nat \<Rightarrow> 32 word \<Rightarrow> 32 word" where
  "rotl32 n x = push_bit n x OR drop_bit (32 - n) x"

definition be32 :: "byte list \<Rightarrow> 32 word" where
  "be32 bs = foldl (\<lambda>acc b. push_bit 8 acc OR ucast b) 0 bs"

definition bytes_of_word32 :: "32 word \<Rightarrow> byte list" where
  "bytes_of_word32 w =
     [ucast (drop_bit 24 w), ucast (drop_bit 16 w), ucast (drop_bit 8 w), ucast w]"

definition bytes_of_word64 :: "64 word \<Rightarrow> byte list" where
  "bytes_of_word64 w = map (\<lambda>i. ucast (drop_bit (8 * (7 - i)) w)) [0..<8]"

definition sha1_pad :: "byte list \<Rightarrow> byte list" where
  "sha1_pad m =
     m @ [0x80] @ replicate ((119 - length m mod 64) mod 64) 0
       @ bytes_of_word64 (of_nat (8 * length m))"

primrec chunks :: "nat \<Rightarrow> nat \<Rightarrow> 'a list \<Rightarrow> 'a list list" where
  "chunks 0 k xs = []"
| "chunks (Suc n) k xs = take k xs # chunks n k (drop k xs)"

text \<open>The message schedule is grown newest word first.\<close>

primrec expand_schedule :: "nat \<Rightarrow> 32 word list \<Rightarrow> 32 word list" where
  "expand_schedule 0 ws = ws"
| "expand_schedule (Suc n) ws =
     expand_schedule n (rotl32 1 (ws ! 2 XOR ws ! 7 XOR ws ! 13 XOR ws ! 15) # ws)"

definition schedule :: "byte list \<Rightarrow> 32 word list" where
  "schedule block = rev (expand_schedule 64 (rev (map be32 (chunks 16 4 block))))"

definition sha1_f :: "nat \<Rightarrow> 32 word \<Rightarrow> 32 word \<Rightarrow> 32 word \<Rightarrow> 32 word" where
  "sha1_f t b c d =
     (if t < 20 then (b AND c) OR (NOT b AND d)
      else if t < 40 then b XOR c XOR d
      else if t < 60 then (b AND c) OR (b AND d) OR (c AND d)
      else b XOR c XOR d)"

definition sha1_k :: "nat \<Rightarrow> 32 word" where
  "sha1_k t =
     (if t < 20 then 0x5A827999 else if t < 40 then 0x6ED9EBA1
      else if t < 60 then 0x8F1BBCDC else 0xCA62C1D6)"

type_synonym sha1_state = "32 word \<times> 32 word \<times> 32 word \<times> 32 word \<times> 32 word"

fun sha1_round :: "nat \<times> 32 word \<Rightarrow> sha1_state \<Rightarrow> sha1_state" where
  "sha1_round (t, w) (a, b, c, d, e) =
     (rotl32 5 a + sha1_f t b c d + e + sha1_k t + w, a, rotl32 30 b, c, d)"

fun sha1_add :: "sha1_state \<Rightarrow> sha1_state \<Rightarrow> sha1_state" where
  "sha1_add (a, b, c, d, e) (a', b', c', d', e') =
     (a + a', b + b', c + c', d + d', e + e')"

definition sha1_compress :: "byte list \<Rightarrow> sha1_state \<Rightarrow> sha1_state" where
  "sha1_compress block h =
     sha1_add h (fold sha1_round (zip [0..<80] (schedule block)) h)"

definition sha1_init :: sha1_state where
  "sha1_init = (0x67452301, 0xEFCDAB89, 0x98BADCFE, 0x10325476, 0xC3D2E1F0)"

fun sha1_output :: "sha1_state \<Rightarrow> byte list" where
  "sha1_output (a, b, c, d, e) = concat (map bytes_of_word32 [a, b, c, d, e])"

definition sha1 :: "byte list \<Rightarrow> byte list" where
  "sha1 m =
     (let p = sha1_pad m
      in sha1_output (fold sha1_compress (chunks (length p div 64) 64 p) sha1_init))"

subsection \<open>\<open>uuid.UUID\<close>\<close>

text \<open>
  A \<open>UUID\<close> object holds one integer below \<open>2 ^ 128\<close>. \<open>UUID(bytes=b, version=v)\<close>
  rejects a byte string that is not 16 long and a version outside 1..5, reads the
  bytes big-endian, and then overwrites the variant and version bits.
\<close>

definition int_from_bytes :: "byte list \<Rightarrow> uuid" where
  "int_from_bytes bs = foldl (\<lambda>acc b. push_bit 8 acc OR ucast b) 0 bs"

definition uuid_bytes :: "uuid \<Rightarrow> byte list" where
  "uuid_bytes u = map (\<lambda>i. ucast (drop_bit (8 * (15 - i)) u)) [0..<16]"

definition set_version :: "nat \<Rightarrow> uuid \<Rightarrow> uuid" where
  "set_version v i =
     (let i1 = i AND NOT (push_bit 48 0xc000);
          i2 = i1 OR push_bit 48 0x8000;
          i3 = i2 AND NOT (push_bit 64 0xf000)
      in i3 OR push_bit 76 (of_nat v))"

definition UUID_of_bytes :: "byte list \<Rightarrow> nat \<Rightarrow> error + uuid" where
  "UUID_of_bytes bs v =
     (if length bs \<noteq> 16 then Inl ValueError
      else if \<not> (1 \<le> v \<and> v \<le> 5) then Inl ValueError
      else Inr (set_version v (int_from_bytes bs)))"

text \<open>
  \<open>str(u)\<close> is \<open>'%032x' % u.int\<close> cut into five groups joined by hyphens. The format
  writes the hexadecimal digits of the integer in lower case and pads with zeros on the
  left up to 32 characters; it never truncates.
\<close>

definition hex_digit :: "nat \<Rightarrow> char" where
  "hex_digit d = ''0123456789abcdef'' ! d"

fun hex_digits :: "nat \<Rightarrow> string" where
  "hex_digits n =
     (if n < 16 then [hex_digit n]
      else hex_digits (n div 16) @ [hex_digit (n mod 16)])"

declare hex_digits.simps [simp del]

definition format_032x :: "nat \<Rightarrow> string" where
  "format_032x n =
     (let ds = hex_digits n in replicate (32 - length ds) CHR ''0'' @ ds)"

definition str_uuid :: "uuid \<Rightarrow> string" where
  "str_uuid u =
     (let hex = format_032x (unat u)
      in take 8 hex @ ''-'' @ take 4 (drop 8 hex) @ ''-'' @ take 4 (drop 12 hex)
           @ ''-'' @ take 4 (drop 16 hex) @ ''-'' @ drop 20 hex)"

definition uuid5 :: "uuid \<Rightarrow> pystr \<Rightarrow> error + uuid" where
  "uuid5 namespace name =
     (case bytes_utf8 name of
        Inl e \<Rightarrow> Inl e
      | Inr nb \<Rightarrow> UUID_of_bytes (take 16 (sha1 (uuid_bytes namespace @ nb))) 5)"

section \<open>The world the script runs in\<close>

text \<open>
  Everything the script can read or change outside its own locals:
  \<^item> \<open>urandom\<close> is the sequence of bytes the operating system will hand out and
    \<open>consumed\<close> how many of them have been taken;
  \<^item> \<open>stdout\<close> holds the lines written by \<open>print\<close>, \<open>logged\<close> the lines written
    through a logger;
  \<^item> \<open>usage_collector\<close> is the state of the \<open>metrics.UsageCollector\<close> object that
    \<open>entrypoint\<close> creates and its metrics callback captures; the collector class
    belongs to the SDK, so its state type is a parameter;
  \<^item> \<open>calls\<close> lists the calls made into the SDK, in program order.
\<close>

datatype auto_subscribe = SUBSCRIBE_ALL | SUBSCRIBE_NONE | AUDIO_ONLY | VIDEO_ONLY

datatype handler = On_metrics_collected | On_user_state_changed | On_agent_state_changed

record remote_graph =
  graph_name :: string
  graph_url :: "string option"

record adapter =
  adapter_graph :: remote_graph
  config_thread_id :: string

datatype vad = Silero_VAD

record session_args =
  vad :: vad
  min_endpointing_delay_ms :: nat
  max_endpointing_delay_ms :: nat
  llm :: adapter

datatype call =
    Silero_VAD_load
  | Ctx_connect auto_subscribe
  | Ctx_wait_for_participant
  | UsageCollector_new
  | RemoteGraph_new string "string option"
  | LangGraphAdapter_new remote_graph string
  | AgentSession_new session_args
  | Session_on string handler
  | Deepgram_STT_new
  | Cartesia_TTS_new
  | MultilingualModel_new
  | Agent_init
  | BVC_new
  | RoomInputOptions_new
  | Session_start string
  | Generate_reply string bool

record 'c world =
  urandom :: "nat \<Rightarrow> byte"
  consumed :: nat
  stdout :: "string list"
  logged :: "string list"
  usage_collector :: 'c
  calls :: "call list"

type_synonym ('a, 'c) prog = "'c world \<Rightarrow> (error + 'a) \<times> 'c world"

definition return_prog :: "'a \<Rightarrow> ('a, 'c) prog" where
  "return_prog x w = (Inr x, w)"

definition raise_prog :: "error \<Rightarrow> ('a, 'c) prog" where
  "raise_prog e w = (Inl e, w)"

definition bind_prog :: "('a, 'c) prog \<Rightarrow> ('a \<Rightarrow> ('b, 'c) prog) \<Rightarrow> ('b, 'c) prog" where
  "bind_prog m f w =
     (case m w of
        (Inl e, w') \<Rightarrow> (Inl e, w')
      | (Inr x, w') \<Rightarrow> f x w')"

definition os_urandom :: "nat \<Rightarrow> 'c world \<Rightarrow> byte list \<times> 'c world" where
  "os_urandom n w =
     (map (\<lambda>i. urandom w (consumed w + i)) [0..<n], w\<lparr>consumed := consumed w + n\<rparr>)"

definition uuid4 :: "(uuid, 'c) prog" where
  "uuid4 w = (case os_urandom 16 w of (bs, w') \<Rightarrow> (UUID_of_bytes bs 4, w'))"

section \<open>\<open>get_thread_id\<close>\<close>

definition NAMESPACE :: uuid where
  "NAMESPACE = 0x41010b5d54474df5baf297d69f2e9d06"

definition get_thread_id :: "pystr option \<Rightarrow> (string, 'c) prog" where
  "get_thread_id sid w =
     (case sid of
        Some s \<Rightarrow> (map_sum id str_uuid (uuid5 NAMESPACE s), w)
      | None \<Rightarrow> (case uuid4 w of (r, w') \<Rightarrow> (map_sum id str_uuid r, w')))"

section \<open>Canonical textual form of a UUID\<close>

text \<open>
  \<open>split_on\<close> is Python's \<open>str.split(sep)\<close> for a one-character separator. A string
  is in canonical form when it has 36 characters and splits at its hyphens into five
  groups of 8, 4, 4, 4 and 12 lower-case hexadecimal digits.
\<close>

fun split_on :: "char \<Rightarrow> string \<Rightarrow> string list" where
  "split_on sep [] = [[]]"
| "split_on sep (x # xs) =
     (if x = sep then [] # split_on sep xs
      else (case split_on sep xs of
              [] \<Rightarrow> [[x]]
            | g # gs \<Rightarrow> (x # g) # gs))"

definition is_hex_char :: "char \<Rightarrow> bool" where
  "is_hex_char c = (c \<in> set ''0123456789abcdef'')"

definition canonical_uuid :: "string \<Rightarrow> bool" where
  "canonical_uuid t =
     (length t = 36 \<and>
      map length (split_on CHR ''-'' t) = [8, 4, 4, 4, 12] \<and>
      list_all (list_all is_hex_char) (split_on CHR ''-'' t))"

section \<open>The event observers\<close>

record state_changed_event =
  old_state :: string
  new_state :: string

definition print_line :: "string \<Rightarrow> 'c world \<Rightarrow> 'c world" where
  "print_line s w = w\<lparr>stdout := stdout w @ [s]\<rparr>"

definition on_user_state_changed :: "state_changed_event \<Rightarrow> 'c world \<Rightarrow> 'c world" where
  "on_user_state_changed ev w =
     (if new_state ev = ''speaking'' then print_line ''User started speaking'' w
      else if new_state ev = ''listening'' then print_line ''User stopped speaking'' w
      else if new_state ev = ''away'' then
        print_line ''User is not present (e.g. disconnected)'' w
      else w)"

definition on_agent_state_changed :: "state_changed_event \<Rightarrow> 'c world \<Rightarrow> 'c world" where
  "on_agent_state_changed ev w =
     (if new_state ev = ''initializing'' then print_line ''Agent is starting up'' w
      else if new_state ev = ''idle'' then
        print_line ''Agent is ready but not processing'' w
      else if new_state ev = ''listening'' then
        print_line ''Agent is listening for user input'' w
      else if new_state ev = ''thinking'' then
        print_line ''Agent is processing user input and generating a response'' w
      else if new_state ev = ''speaking'' then print_line ''Agent started speaking'' w
      else w)"

text \<open>
  The metrics callback hands the metrics object to two SDK functions:
  \<open>metrics.log_metrics\<close>, which writes log lines, and the \<open>collect\<close> method of the
  captured collector, which updates the collector. Both belong to the SDK and are
  parameters here: \<open>log_metrics m\<close> is the lines logged for \<open>m\<close> and \<open>collect m c\<close>
  the collector after \<open>m\<close> was added to \<open>c\<close>.
\<close>

definition on_metrics_collected ::
  "('m \<Rightarrow> string list) \<Rightarrow> ('m \<Rightarrow> 'c \<Rightarrow> 'c) \<Rightarrow> 'm \<Rightarrow> 'c world \<Rightarrow> 'c world" where
  "on_metrics_collected log_metrics collect agent_metrics w =
     (let w1 = w\<lparr>logged := logged w @ log_metrics agent_metrics\<rparr>
      in w1\<lparr>usage_collector := collect agent_metrics (usage_collector w1)\<rparr>)"

text \<open>
  One instance of those parameters, after the SDK's usage collector, which keeps running
  totals of the token and character counts carried by the metrics it is given.
\<close>

datatype agent_metrics =
    LLM_metrics nat nat
  | TTS_metrics nat
  | Other_metrics

record usage_summary =
  llm_prompt_tokens :: nat
  llm_completion_tokens :: nat
  tts_characters_count :: nat

fun usage_collect :: "agent_metrics \<Rightarrow> usage_summary \<Rightarrow> usage_summary" where
  "usage_collect (LLM_metrics p c) s =
     s\<lparr>llm_prompt_tokens := llm_prompt_tokens s + p,
       llm_completion_tokens := llm_completion_tokens s + c\<rparr>"
| "usage_collect (TTS_metrics n) s =
     s\<lparr>tts_characters_count := tts_characters_count s + n\<rparr>"
| "usage_collect Other_metrics s = s"

definition usage_empty :: usage_summary where
  "usage_empty =
     \<lparr>llm_prompt_tokens = 0, llm_completion_tokens = 0, tts_characters_count = 0\<rparr>"

section \<open>Calls into the SDK\<close>

text \<open>
  What the SDK answers is fixed by an environment: which calls raise, which participant
  \<open>wait_for_participant\<close> returns, and the value of the \<open>REMOTE_GRAPH_URL\<close> variable
  read when the module is loaded. A call is recorded in \<open>calls\<close> whether it raises or
  not; nothing is caught anywhere in the script, so an exception ends the procedure.
\<close>

record participant =
  sid :: "pystr option"
  identity :: string

record env =
  raises :: "call \<Rightarrow> error option"
  next_participant :: participant
  remote_graph_url :: "string option"

record job_context =
  room_name :: string
  userdata :: "string \<rightharpoonup> vad"

definition sdk_call :: "env \<Rightarrow> call \<Rightarrow> (unit, 'c) prog" where
  "sdk_call e c w =
     (case raises e c of
        Some err \<Rightarrow> (Inl err, w\<lparr>calls := calls w @ [c]\<rparr>)
      | None \<Rightarrow> (Inr (), w\<lparr>calls := calls w @ [c]\<rparr>))"

definition logger_info :: "string \<Rightarrow> (unit, 'c) prog" where
  "logger_info s w = (Inr (), w\<lparr>logged := logged w @ [s]\<rparr>)"

definition lookup :: "('k \<rightharpoonup> 'v) \<Rightarrow> 'k \<Rightarrow> ('k \<Rightarrow> error) \<Rightarrow> ('v, 'c) prog" where
  "lookup d k err w = (case d k of None \<Rightarrow> (Inl (err k), w) | Some v \<Rightarrow> (Inr v, w))"

section \<open>The agent\<close>

text \<open>
  \<open>Assistant()\<close> builds the speech-to-text, text-to-speech and turn-detection objects
  and passes them with the instruction text to the SDK's \<open>Agent\<close> constructor. The
  instruction text is a constant payload and is not reproduced.
\<close>

definition Assistant_new :: "env \<Rightarrow> (unit, 'c) prog" where
  "Assistant_new e =
     bind_prog (sdk_call e Deepgram_STT_new) (\<lambda>_.
     bind_prog (sdk_call e Cartesia_TTS_new) (\<lambda>_.
     bind_prog (sdk_call e MultilingualModel_new) (\<lambda>_.
     sdk_call e Agent_init)))"

definition on_enter :: "env \<Rightarrow> (unit, 'c) prog" where
  "on_enter e = sdk_call e (Generate_reply ''Hey, how can I help you today?'' True)"

section \<open>Worker hooks\<close>

definition prewarm :: "env \<Rightarrow> job_context \<Rightarrow> 'c world \<Rightarrow> (error + job_context) \<times> 'c world" where
  "prewarm e proc w =
     (case sdk_call e Silero_VAD_load w of
        (Inl err, w') \<Rightarrow> (Inl err, w')
      | (Inr _, w') \<Rightarrow> (Inr (proc\<lparr>userdata := (userdata proc)(''vad'' \<mapsto> Silero_VAD)\<rparr>), w'))"

text \<open>
  The endpointing delays \<open>0.5\<close> and \<open>5.0\<close> seconds are written in milliseconds.
  \<open>new_collector\<close> is the state of a freshly constructed usage collector.
\<close>

definition entrypoint :: "'c \<Rightarrow> env \<Rightarrow> job_context \<Rightarrow> (unit, 'c) prog" where
  "entrypoint new_collector e ctx =
     bind_prog (logger_info (''connecting to room '' @ room_name ctx)) (\<lambda>_.
     bind_prog (sdk_call e (Ctx_connect AUDIO_ONLY)) (\<lambda>_.
     bind_prog (sdk_call e Ctx_wait_for_participant) (\<lambda>_.
     bind_prog (get_thread_id (sid (next_participant e))) (\<lambda>thread_id.
     bind_prog (logger_info (''starting voice assistant for participant ''
                               @ identity (next_participant e))) (\<lambda>_.
     bind_prog (sdk_call e UsageCollector_new) (\<lambda>_.
     bind_prog (\<lambda>w. (Inr (), w\<lparr>usage_collector := new_collector\<rparr>)) (\<lambda>_.
     bind_prog (sdk_call e (RemoteGraph_new ''stepwork_assistant'' (remote_graph_url e))) (\<lambda>_.
     bind_prog (return_prog \<lparr>graph_name = ''stepwork_assistant'',
                             graph_url = remote_graph_url e\<rparr>) (\<lambda>graph.
     bind_prog (lookup (userdata ctx) ''vad'' KeyError) (\<lambda>v.
     bind_prog (sdk_call e (LangGraphAdapter_new graph thread_id)) (\<lambda>_.
     bind_prog (sdk_call e (AgentSession_new
                  \<lparr>vad = v, min_endpointing_delay_ms = 500,
                   max_endpointing_delay_ms = 5000,
                   llm = \<lparr>adapter_graph = graph, config_thread_id = thread_id\<rparr>\<rparr>)) (\<lambda>_.
     bind_prog (sdk_call e (Session_on ''metrics_collected'' On_metrics_collected)) (\<lambda>_.
     bind_prog (sdk_call e (Session_on ''user_state_changed'' On_user_state_changed)) (\<lambda>_.
     bind_prog (sdk_call e (Session_on ''agent_state_changed'' On_agent_state_changed)) (\<lambda>_.
     bind_prog (Assistant_new e) (\<lambda>_.
     bind_prog (sdk_call e BVC_new) (\<lambda>_.
     bind_prog (sdk_call e RoomInputOptions_new) (\<lambda>_.
     sdk_call e (Session_start (room_name ctx))))))))))))))))))))"

text \<open>
  The calls a run of \<open>entrypoint\<close> makes when nothing raises, for a derived thread
  identifier \<open>tid\<close> and a voice-activity detector \<open>v\<close>.
\<close>

definition entrypoint_calls :: "env \<Rightarrow> job_context \<Rightarrow> string \<Rightarrow> vad \<Rightarrow> call list" where
  "entrypoint_calls e ctx tid v =
     (let graph = \<lparr>graph_name = ''stepwork_assistant'', graph_url = remote_graph_url e\<rparr>
      in [Ctx_connect AUDIO_ONLY,
          Ctx_wait_for_participant,
          UsageCollector_new,
          RemoteGraph_new ''stepwork_assistant'' (remote_graph_url e),
          LangGraphAdapter_new graph tid,
          AgentSession_new
            \<lparr>vad = v, min_endpointing_delay_ms = 500, max_endpointing_delay_ms = 5000,
             llm = \<lparr>adapter_graph = graph, config_thread_id = tid\<rparr>\<rparr>,
          Session_on ''metrics_collected'' On_metrics_collected,
          Session_on ''user_state_changed'' On_user_state_changed,
          Session_on ''agent_state_changed'' On_agent_state_changed,
          Deepgram_STT_new,
          Cartesia_TTS_new,
          MultilingualModel_new,
          Agent_init,
          BVC_new,
          RoomInputOptions_new,
          Session_start (room_name ctx)])"

text \<open>
  The sequence \<open>entrypoint_calls\<close> in its three stages: the connection, the graph
  handle, and the session with everything after it.
\<close>

definition connect_calls :: "call list" where
  "connect_calls = [Ctx_connect AUDIO_ONLY, Ctx_wait_for_participant]"

definition graph_calls :: "env \<Rightarrow> call list" where
  "graph_calls e =
     [UsageCollector_new, RemoteGraph_new ''stepwork_assistant'' (remote_graph_url e)]"

definition session_calls :: "env \<Rightarrow> job_context \<Rightarrow> string \<Rightarrow> vad \<Rightarrow> call list" where
  "session_calls e ctx tid v =
     (let graph = \<lparr>graph_name = ''stepwork_assistant'', graph_url = remote_graph_url e\<rparr>
      in [LangGraphAdapter_new graph tid,
          AgentSession_new
            \<lparr>vad = v, min_endpointing_delay_ms = 500, max_endpointing_delay_ms = 5000,
             llm = \<lparr>adapter_graph = graph, config_thread_id = tid\<rparr>\<rparr>,
          Session_on ''metrics_collected'' On_metrics_collected,
          Session_on ''user_state_changed'' On_user_state_changed,
          Session_on ''agent_state_changed'' On_agent_state_changed,
          Deepgram_STT_new,
          Cartesia_TTS_new,
          MultilingualModel_new,
          Agent_init,
          BVC_new,
          RoomInputOptions_new,
          Session_start (room_name ctx)])"

text \<open>
  Of a list of calls made one after the other, \<open>attempted\<close> is the part that is
  reached, up to and including the first call that raises, and \<open>first_error\<close> is what
  that call raises. \<open>sdk_calls\<close> makes the calls of a list in order.
\<close>

fun attempted :: "env \<Rightarrow> call list \<Rightarrow> call list" where
  "attempted e [] = []"
| "attempted e (c # cs) =
     (case raises e c of Some err \<Rightarrow> [c] | None \<Rightarrow> c # attempted e cs)"

fun first_error :: "env \<Rightarrow> call list \<Rightarrow> error option" where
  "first_error e [] = None"
| "first_error e (c # cs) =
     (case raises e c of Some err \<Rightarrow> Some err | None \<Rightarrow> first_error e cs)"

fun sdk_calls :: "env \<Rightarrow> call list \<Rightarrow> (unit, 'c) prog" where
  "sdk_calls e [] = return_prog ()"
| "sdk_calls e (c # cs) = bind_prog (sdk_call e c) (\<lambda>_. sdk_calls e cs)"

section \<open>Encodable session ids and sample inputs\<close>

text \<open>A session id can be encoded as UTF-8 when none of its code points is a surrogate.\<close>

definition encodable :: "pystr \<Rightarrow> bool" where
  "encodable s = list_all (\<lambda>c. \<not> is_surrogate c) s"

text \<open>The position of the first surrogate code point of a session id.\<close>

definition first_surrogate :: "pystr \<Rightarrow> nat" where
  "first_surrogate s = length (takeWhile (\<lambda>c. \<not> is_surrogate c) s)"

text \<open>
  A world in which nothing has happened yet and the operating system will hand out the
  bytes 0, 1, 2, ... in turn; a healthy SDK in which no call raises and the participant
  has the session id \<open>abc123\<close>; and a job context that went through \<open>prewarm\<close>.
\<close>

definition world0 :: "'c \<Rightarrow> 'c world" where
  "world0 c = \<lparr>urandom = (\<lambda>i. of_nat i), consumed = 0, stdout = [], logged = [],
               usage_collector = c, calls = []\<rparr>"

definition env0 :: env where
  "env0 = \<lparr>raises = (\<lambda>_. None),
           next_participant = \<lparr>sid = Some (py ''abc123''), identity = ''user-1''\<rparr>,
           remote_graph_url = Some ''http://localhost:2024''\<rparr>"

definition ctx0 :: job_context where
  "ctx0 = \<lparr>room_name = ''room-1'', userdata = [''vad'' \<mapsto> Silero_VAD]\<rparr>"

text \<open>
  Two SDKs whose participant carries the session id made of the lone surrogate
  \<open>U+D800\<close>: in \<open>env1\<close> the connection also fails, in \<open>env2\<close> no call raises.
\<close>

definition env1 :: env where
  "env1 = \<lparr>raises = (\<lambda>c. if c = Ctx_connect AUDIO_ONLY then Some (LibraryError ''connect'') else None),
           next_participant = \<lparr>sid = Some [0xD800], identity = ''user-2''\<rparr>,
           remote_graph_url = None\<rparr>"

definition env2 :: env where
  "env2 = \<lparr>raises = (\<lambda>_. None),
           next_participant = \<lparr>sid = Some [0xD800], identity = ''user-2''\<rparr>,
           remote_graph_url = None\<rparr>"

section \<open>Facts about the standard library model\<close>

lemma length_sha1_output: "length (sha1_output h) = 20"
  by (cases h) (simp add: bytes_of_word32_def)

lemma length_sha1: "length (sha1 m) = 20"
  by (simp add: sha1_def Let_def length_sha1_output)

lemma utf8_char_None: "(utf8_char c = None) = is_surrogate c"
  by (auto simp: utf8_char_def is_surrogate_def)

lemma utf8_from_Inr: "(\<exists>bs. utf8_from i s = Inr bs) = encodable s"
proof (induction s arbitrary: i)
  case Nil
  show ?case by (simp add: encodable_def)
next
  case (Cons c cs)
  show ?case
  proof (cases "utf8_char c")
    case None
    then show ?thesis
      using utf8_char_None [of c] by (simp add: encodable_def)
  next
    case (Some bs)
    then have "\<not> is_surrogate c"
      using utf8_char_None [of c] by simp
    with Some Cons.IH [of "Suc i"] show ?thesis
      by (auto simp: encodable_def split: sum.splits)
  qed
qed

lemma utf8_from_Inl:
  "\<not> encodable s \<Longrightarrow>
     utf8_from i s = Inl (UnicodeEncodeError (i + first_surrogate s))"
proof (induction s arbitrary: i)
  case Nil
  then show ?case by (simp add: encodable_def)
next
  case (Cons c cs)
  show ?case
  proof (cases "is_surrogate c")
    case True
    then have "utf8_char c = None" by (simp add: utf8_char_None)
    with True show ?thesis by (simp add: first_surrogate_def)
  next
    case False
    then obtain bs where bs: "utf8_char c = Some bs"
      using utf8_char_None [of c] by (cases "utf8_char c") auto
    from False Cons.prems have "\<not> encodable cs" by (simp add: encodable_def)
    from Cons.IH [OF this, of "Suc i"] bs False show ?thesis
      by (simp add: first_surrogate_def)
  qed
qed

lemma get_thread_id_Inl:
  "\<not> encodable s \<Longrightarrow>
     fst (get_thread_id (Some s) w) = Inl (UnicodeEncodeError (first_surrogate s))"
  using utf8_from_Inl [of s 0]
  by (simp add: get_thread_id_def uuid5_def bytes_utf8_def)

lemma UUID_of_bytes_16:
  "length bs = 16 \<Longrightarrow> 1 \<le> v \<Longrightarrow> v \<le> 5 \<Longrightarrow>
     UUID_of_bytes bs v = Inr (set_version v (int_from_bytes bs))"
  by (simp add: UUID_of_bytes_def)

lemma uuid5_Inr: "(\<exists>u. uuid5 ns s = Inr u) = encodable s"
proof (cases "bytes_utf8 s")
  case (Inl e)
  then have "\<not> encodable s"
    using utf8_from_Inr [of 0 s] by (simp add: bytes_utf8_def)
  with Inl show ?thesis by (simp add: uuid5_def)
next
  case (Inr nb)
  then have "encodable s"
    using utf8_from_Inr [of 0 s] by (simp add: bytes_utf8_def)
  with Inr show ?thesis
    by (simp add: uuid5_def UUID_of_bytes_16 length_sha1)
qed

lemma uuid4_Inr:
  "uuid4 w =
     (Inr (set_version 4 (int_from_bytes (map (\<lambda>i. urandom w (consumed w + i)) [0..<16]))),
      w\<lparr>consumed := consumed w + 16\<rparr>)"
  by (simp add: uuid4_def os_urandom_def UUID_of_bytes_16)

lemma hex_digit_is_hex: "d < 16 \<Longrightarrow> is_hex_char (hex_digit d)"
  unfolding is_hex_char_def hex_digit_def by (rule nth_mem) simp

lemma hex_digits_are_hex: "list_all is_hex_char (hex_digits n)"
proof (induction n rule: hex_digits.induct)
  case (1 n)
  show ?case
  proof (cases "n < 16")
    case True
    then show ?thesis by (subst hex_digits.simps) (simp add: hex_digit_is_hex)
  next
    case False
    with "1" show ?thesis by (subst hex_digits.simps) (simp add: hex_digit_is_hex)
  qed
qed

lemma length_hex_digits: "n < 16 ^ Suc k \<Longrightarrow> length (hex_digits n) \<le> Suc k"
proof (induction k arbitrary: n)
  case 0
  then show ?case by (subst hex_digits.simps) simp
next
  case (Suc k)
  show ?case
  proof (cases "n < 16")
    case True
    then show ?thesis by (subst hex_digits.simps) simp
  next
    case False
    from Suc.prems have "n div 16 < 16 ^ Suc k"
      by (simp add: less_mult_imp_div_less mult.commute)
    from Suc.IH [OF this] False show ?thesis
      by (subst hex_digits.simps) simp
  qed
qed

lemma length_format_032x: "n < 2 ^ 128 \<Longrightarrow> length (format_032x n) = 32"
proof -
  assume "n < 2 ^ 128"
  then have "n < 16 ^ Suc 31" by simp
  then have "length (hex_digits n) \<le> Suc 31" by (rule length_hex_digits)
  then show ?thesis by (simp add: format_032x_def Let_def)
qed

lemma zero_is_hex: "is_hex_char CHR ''0''"
  by (simp add: is_hex_char_def)

lemma format_032x_is_hex: "list_all is_hex_char (format_032x n)"
  using hex_digits_are_hex [of n]
  by (auto simp: format_032x_def Let_def zero_is_hex list_all_iff)

lemma split_on_single: "sep \<notin> set a \<Longrightarrow> split_on sep a = [a]"
  by (induction a) auto

lemma split_on_group:
  "sep \<notin> set a \<Longrightarrow> split_on sep (a @ sep # rest) = a # split_on sep rest"
  by (induction a) auto

lemma hyphen_is_not_hex: "\<not> is_hex_char CHR ''-''"
  by (simp add: is_hex_char_def)

lemma hyphen_not_hex: "list_all is_hex_char g \<Longrightarrow> CHR ''-'' \<notin> set g"
  using hyphen_is_not_hex by (auto simp: list_all_iff)

lemma canonical_uuid_groups:
  assumes hex: "list_all is_hex_char a" "list_all is_hex_char b" "list_all is_hex_char c"
    "list_all is_hex_char d" "list_all is_hex_char e"
    and len: "length a = 8" "length b = 4" "length c = 4" "length d = 4" "length e = 12"
  shows "canonical_uuid (a @ ''-'' @ b @ ''-'' @ c @ ''-'' @ d @ ''-'' @ e)"
proof -
  let ?t = "a @ CHR ''-'' # b @ CHR ''-'' # c @ CHR ''-'' # d @ CHR ''-'' # e"
  note nohyp = hex [THEN hyphen_not_hex]
  have "split_on CHR ''-'' e = [e]"
    using nohyp by (simp add: split_on_single)
  then have "split_on CHR ''-'' (d @ CHR ''-'' # e) = [d, e]"
    using nohyp by (simp add: split_on_group)
  then have "split_on CHR ''-'' (c @ CHR ''-'' # d @ CHR ''-'' # e) = [c, d, e]"
    using nohyp by (simp add: split_on_group)
  then have "split_on CHR ''-'' (b @ CHR ''-'' # c @ CHR ''-'' # d @ CHR ''-'' # e) = [b, c, d, e]"
    using nohyp by (simp add: split_on_group)
  then have groups: "split_on CHR ''-'' ?t = [a, b, c, d, e]"
    using nohyp by (simp add: split_on_group)
  have "length ?t = 36"
    using len by simp
  then have "canonical_uuid ?t"
    unfolding canonical_uuid_def groups using hex len by simp
  then show ?thesis by simp
qed

lemma list_all_take: "list_all P xs \<Longrightarrow> list_all P (take n xs)"
  by (auto simp: list_all_iff dest: in_set_takeD)

lemma list_all_drop: "list_all P xs \<Longrightarrow> list_all P (drop n xs)"
  by (auto simp: list_all_iff dest: in_set_dropD)

lemma canonical_str_uuid: "canonical_uuid (str_uuid u)"
proof -
  have "unat u < 2 ^ 128"
    using unsigned_less [of u] by simp
  then have len: "length (format_032x (unat u)) = 32"
    by (rule length_format_032x)
  have hex: "list_all is_hex_char (format_032x (unat u))"
    by (rule format_032x_is_hex)
  show ?thesis
    unfolding str_uuid_def Let_def
    by (rule canonical_uuid_groups) (simp_all add: len hex list_all_take list_all_drop)
qed

section \<open>A worked example: the session id \<open>abc123\<close>\<close>

text \<open>
  The derivation is run on the session id \<open>abc123\<close> step by step. The result is the
  identifier CPython prints for \<open>uuid5(NAMESPACE, "abc123")\<close>.
\<close>

lemma upt_16: "[0..<16] = [0, 1, 2, 3, 4, 5, 6, 7, 8, 9, 10, 11, 12, 13, 14, 15 :: nat]"
  by (simp add: upt_conv_Cons)

lemma replicate_numeral: "replicate (numeral k) x = x # replicate (pred_numeral k) x"
  by (simp add: numeral_eq_Suc)

lemma chunks_numeral: "chunks (numeral n) k xs = take k xs # chunks (pred_numeral n) k (drop k xs)"
  by (simp add: numeral_eq_Suc)

lemma expand_schedule_numeral:
  "expand_schedule (numeral n) ws =
     expand_schedule (pred_numeral n) (rotl32 1 (ws ! 2 XOR ws ! 7 XOR ws ! 13 XOR ws ! 15) # ws)"
  by (simp add: numeral_eq_Suc)

lemma name_bytes: "bytes_utf8 (py ''abc123'') = Inr [97, 98, 99, 49, 50, 51]"
  by (simp add: bytes_utf8_def py_def utf8_char_def)

lemma ns_bytes:
  "uuid_bytes NAMESPACE = [65, 1, 11, 93, 84, 71, 77, 245, 186, 242, 151, 214, 159, 46, 157, 6]"
  by (simp add: uuid_bytes_def NAMESPACE_def upt_16)

lemma pad_example:
  "sha1_pad [65, 1, 11, 93, 84, 71, 77, 245, 186, 242, 151, 214, 159, 46, 157, 6, 97, 98, 99, 49, 50, 51] =
    [65, 1, 11, 93, 84, 71, 77, 245, 186, 242, 151, 214, 159, 46, 157, 6, 97, 98, 99, 49, 50, 51, 0x80,
     0,0,0,0,0,0,0,0,0,0,0,0,0,0,0,0,0, 0,0,0,0,0,0,0,0,0,0,0,0,0,0,0,0,
     0,0,0,0,0,0,0,176]"
  by (simp add: sha1_pad_def bytes_of_word64_def replicate_numeral upt_conv_Cons)

lemma schedule_example:
  "schedule [65, 1, 11, 93, 84, 71, 77, 245, 186, 242, 151, 214, 159, 46, 157, 6, 97, 98, 99, 49, 50, 51, 0x80,
     0,0,0,0,0,0,0,0,0,0,0,0,0,0,0,0,0, 0,0,0,0,0,0,0,0,0,0,0,0,0,0,0,0,
     0,0,0,0,0,0,0,176] =
   [0x41010b5d, 0x54474df5, 0xbaf297d6, 0x9f2e9d06, 0x61626331, 0x32338000, 0x0, 0x0, 0x0, 0x0, 0x0, 0x0, 0x0, 0x0, 0x0, 0xb0, 0xf7e73917, 0x96d3a1e7, 0xb721e8af, 0xb5f44822, 0xef6385ad, 0xa24d15f, 0x6be89045, 0xdec70a3b, 0xfb87d091, 0xfa766345, 0xd3cdc528, 0x9ce73166, 0x2a2bcdd0, 0xb3d2298f, 0x1d13068, 0xc47ecd78, 0x1126514c, 0xb10175d1, 0x9fe2caa4, 0x6423f2ae, 0x3f435bd2, 0xf1a6709f, 0xeb3b0425, 0xbf19ffa9, 0x919468d5, 0x795647ae, 0xb23a7beb, 0xb5050525, 0xdbdfc388, 0x6861df06, 0x9d92c048, 0x23730910, 0xee625876, 0x63cc0132, 0x63d1c71a, 0x9dc5bec5, 0xd8d73a9a, 0x8a1f2e54, 0xf5f024fa, 0x7bd7171a, 0x8fa6ca38, 0xb4dece86, 0xe3c6d0c6, 0x9e0f5dbd, 0x5489efb8, 0x45965108, 0x301fc2f2, 0xdfc3e100, 0x8f0608b8, 0xf5916706, 0xe07988d, 0xda78b28, 0x187f2dbd, 0x74b3e197, 0x8fdd4e30, 0x116a2a42, 0x2fabe7a3, 0xa13b741a, 0x50451b63, 0xf32ac07d, 0xbba4e9db, 0x7d4695f9, 0x87dc880f, 0x1388b3f]"
  by (simp add: schedule_def chunks_numeral be32_def expand_schedule_numeral rotl32_def)

lemma rounds_example:
  "fold sha1_round (zip [0..<80] [0x41010b5d, 0x54474df5, 0xbaf297d6, 0x9f2e9d06, 0x61626331, 0x32338000, 0x0, 0x0, 0x0, 0x0, 0x0, 0x0, 0x0, 0x0, 0x0, 0xb0, 0xf7e73917, 0x96d3a1e7, 0xb721e8af, 0xb5f44822, 0xef6385ad, 0xa24d15f, 0x6be89045, 0xdec70a3b, 0xfb87d091, 0xfa766345, 0xd3cdc528, 0x9ce73166, 0x2a2bcdd0, 0xb3d2298f, 0x1d13068, 0xc47ecd78, 0x1126514c, 0xb10175d1, 0x9fe2caa4, 0x6423f2ae, 0x3f435bd2, 0xf1a6709f, 0xeb3b0425, 0xbf19ffa9, 0x919468d5, 0x795647ae, 0xb23a7beb, 0xb5050525, 0xdbdfc388, 0x6861df06, 0x9d92c048, 0x23730910, 0xee625876, 0x63cc0132, 0x63d1c71a, 0x9dc5bec5, 0xd8d73a9a, 0x8a1f2e54, 0xf5f024fa, 0x7bd7171a, 0x8fa6ca38, 0xb4dece86, 0xe3c6d0c6, 0x9e0f5dbd, 0x5489efb8, 0x45965108, 0x301fc2f2, 0xdfc3e100, 0x8f0608b8, 0xf5916706, 0xe07988d, 0xda78b28, 0x187f2dbd, 0x74b3e197, 0x8fdd4e30, 0x116a2a42, 0x2fabe7a3, 0xa13b741a, 0x50451b63, 0xf32ac07d, 0xbba4e9db, 0x7d4695f9, 0x87dc880f, 0x1388b3f]) sha1_init =
   (0xa612676f, 0x7e482a15, 0x6c209aeb, 0xc0631a73, 0x1afcbb6f)"
  by (simp add: upt_conv_Cons sha1_init_def sha1_f_def sha1_k_def rotl32_def)


lemma compress_example:
  "sha1_compress [65, 1, 11, 93, 84, 71, 77, 245, 186, 242, 151, 214, 159, 46, 157, 6, 97, 98, 99, 49, 50, 51, 0x80,
     0,0,0,0,0,0,0,0,0,0,0,0,0,0,0,0,0, 0,0,0,0,0,0,0,0,0,0,0,0,0,0,0,0,
     0,0,0,0,0,0,0,176] sha1_init =
     (0x0d578a70, 0x6e15d59e, 0x04db77e9, 0xd0956ee9, 0xdecf9d5f)"
  unfolding sha1_compress_def schedule_example rounds_example
  by (simp add: sha1_init_def)

lemma chunks_example:
  "chunks (length [65, 1, 11, 93, 84, 71, 77, 245, 186, 242, 151, 214, 159, 46, 157, 6, 97, 98, 99, 49, 50, 51, 0x80,
     0,0,0,0,0,0,0,0,0,0,0,0,0,0,0,0,0, 0,0,0,0,0,0,0,0,0,0,0,0,0,0,0,0,
     0,0,0,0,0,0,0,176] div 64) 64 [65, 1, 11, 93, 84, 71, 77, 245, 186, 242, 151, 214, 159, 46, 157, 6, 97, 98, 99, 49, 50, 51, 0x80,
     0,0,0,0,0,0,0,0,0,0,0,0,0,0,0,0,0, 0,0,0,0,0,0,0,0,0,0,0,0,0,0,0,0,
     0,0,0,0,0,0,0,176] = [[65, 1, 11, 93, 84, 71, 77, 245, 186, 242, 151, 214, 159, 46, 157, 6, 97, 98, 99, 49, 50, 51, 0x80,
     0,0,0,0,0,0,0,0,0,0,0,0,0,0,0,0,0, 0,0,0,0,0,0,0,0,0,0,0,0,0,0,0,0,
     0,0,0,0,0,0,0,176]]"
  by simp

lemma sha1_example:
  "sha1 [65, 1, 11, 93, 84, 71, 77, 245, 186, 242, 151, 214, 159, 46, 157, 6, 97, 98, 99, 49, 50, 51] =
     [0x0d, 0x57, 0x8a, 0x70, 0x6e, 0x15, 0xd5, 0x9e, 0x04, 0xdb, 0x77, 0xe9, 0xd0, 0x95, 0x6e, 0xe9,
      0xde, 0xcf, 0x9d, 0x5f]"
  unfolding sha1_def Let_def pad_example chunks_example
  by (simp add: compress_example bytes_of_word32_def)

lemma uuid5_example:
  "uuid5 NAMESPACE (py ''abc123'') = Inr 0x0d578a706e15559e84db77e9d0956ee9"
  by (simp add: uuid5_def name_bytes ns_bytes sha1_example UUID_of_bytes_def
        int_from_bytes_def set_version_def)

lemma str_uuid_example:
  "str_uuid 0x0d578a706e15559e84db77e9d0956ee9 = ''0d578a70-6e15-559e-84db-77e9d0956ee9''"
  by (simp add: str_uuid_def format_032x_def hex_digits.simps hex_digit_def Let_def)

lemma get_thread_id_example:
  "get_thread_id (Some (py ''abc123'')) w = (Inr ''0d578a70-6e15-559e-84db-77e9d0956ee9'', w)"
  by (simp add: get_thread_id_def uuid5_example str_uuid_example)

section \<open>Thread identifier derivation\<close>

lemma uuid4_world0:
  "set_version 4 (int_from_bytes
     (map (\<lambda>i. urandom (world0 c) (consumed (world0 c) + i)) [0..<16])) =
   0x000102030405460788090a0b0c0d0e0f"
  by (simp add: world0_def int_from_bytes_def set_version_def upt_16)

lemma str_uuid_world0:
  "str_uuid 0x000102030405460788090a0b0c0d0e0f = ''00010203-0405-4607-8809-0a0b0c0d0e0f''"
  by (simp add: str_uuid_def format_032x_def hex_digits.simps hex_digit_def Let_def
        replicate_numeral)

text \<open>
  Claim C1. For a session id that is present, the outcome of \<open>get_thread_id\<close> is the
  same in any two worlds, whatever the operating system's random bytes are and however
  many were consumed before, and the call leaves the world as it found it. Two calls
  with the same session id therefore return the identical string (or, for a session id
  that cannot be encoded, raise the identical error).
\<close>

theorem get_thread_id_deterministic:
  "fst (get_thread_id (Some s) w1) = fst (get_thread_id (Some s) w2) \<and>
   snd (get_thread_id (Some s) w1) = w1"
  by (simp add: get_thread_id_def)

text \<open>
  Claim C4, as stated, fails: \<open>get_thread_id\<close> is not total on \<open>str | None\<close>. The
  one-character string holding the lone surrogate \<open>U+D800\<close> is a \<open>str\<close>, and the
  derivation raises \<open>UnicodeEncodeError\<close> on it.
\<close>

theorem get_thread_id_raises_on_surrogate:
  "fst (get_thread_id (Some [0xD800]) (world0 ())) = Inl (UnicodeEncodeError 0)"
  by (simp add: get_thread_id_def uuid5_def bytes_utf8_def utf8_char_def is_surrogate_def)

text \<open>
  Claim C4, amended. \<open>get_thread_id\<close> returns a string exactly when the session id is
  absent or is a string without surrogate code points (the empty string included). On a
  string with a surrogate code point it raises \<open>UnicodeEncodeError\<close>, reporting the
  position of the first one. It writes nothing: a present session id leaves the world
  unchanged, an absent one only takes 16 bytes from the operating system's random source.
\<close>

theorem get_thread_id_total_on_encodable:
  "(\<exists>t. fst (get_thread_id session_id w) = Inr t) =
     (case session_id of None \<Rightarrow> True | Some s \<Rightarrow> encodable s) \<and>
   (\<forall>s. session_id = Some s \<and> \<not> encodable s \<longrightarrow>
      fst (get_thread_id session_id w) = Inl (UnicodeEncodeError (first_surrogate s))) \<and>
   snd (get_thread_id session_id w) =
     (case session_id of None \<Rightarrow> w\<lparr>consumed := consumed w + 16\<rparr> | Some s \<Rightarrow> w)"
proof (cases session_id)
  case None
  then show ?thesis by (simp add: get_thread_id_def uuid4_Inr)
next
  case (Some s)
  have "(\<exists>t. map_sum id str_uuid (uuid5 NAMESPACE s) = Inr t) =
          (\<exists>u. uuid5 NAMESPACE s = Inr u)"
    by (cases "uuid5 NAMESPACE s") simp_all
  with Some show ?thesis
    using get_thread_id_Inl [of s w]
    by (simp add: get_thread_id_def uuid5_Inr)
qed

theorem get_thread_id_total_on_encodable_witness:
  "\<not> encodable [120, 0xDC00] \<and>
   fst (get_thread_id (Some [120, 0xDC00]) (world0 ())) = Inl (UnicodeEncodeError 1) \<and>
   encodable [] \<and>
   (\<exists>t. fst (get_thread_id (Some []) (world0 ())) = Inr t) \<and>
   snd (get_thread_id None (world0 ())) = (world0 ())\<lparr>consumed := 16\<rparr>"
  using get_thread_id_total_on_encodable [of "Some [120, 0xDC00]" "world0 ()"]
    get_thread_id_total_on_encodable [of "Some []" "world0 ()"]
    get_thread_id_total_on_encodable [of None "world0 ()"]
  by (simp add: encodable_def is_surrogate_def first_surrogate_def world0_def)

text \<open>
  Claim C9. Every string \<open>get_thread_id\<close> returns, on either branch, is in canonical
  UUID form: 36 characters that split at the hyphens into five groups of 8, 4, 4, 4 and
  12 lower-case hexadecimal digits.
\<close>

theorem get_thread_id_canonical:
  "fst (get_thread_id session_id w) = Inr t \<Longrightarrow> canonical_uuid t"
proof -
  assume r: "fst (get_thread_id session_id w) = Inr t"
  have "\<exists>u. t = str_uuid u"
  proof (cases session_id)
    case None
    with r show ?thesis by (auto simp: get_thread_id_def uuid4_Inr)
  next
    case (Some s)
    with r show ?thesis
      by (cases "uuid5 NAMESPACE s") (auto simp: get_thread_id_def)
  qed
  then show ?thesis by (auto simp: canonical_str_uuid)
qed

text \<open>The absent branch in the sample world, and the present branch on \<open>abc123\<close>.\<close>

theorem get_thread_id_canonical_witness:
  "fst (get_thread_id None (world0 ())) = Inr ''00010203-0405-4607-8809-0a0b0c0d0e0f'' \<and>
   canonical_uuid ''00010203-0405-4607-8809-0a0b0c0d0e0f'' \<and>
   fst (get_thread_id (Some (py ''abc123'')) (world0 ())) = Inr ''0d578a70-6e15-559e-84db-77e9d0956ee9'' \<and>
   canonical_uuid ''0d578a70-6e15-559e-84db-77e9d0956ee9''"
proof -
  have absent: "fst (get_thread_id None (world0 ())) = Inr ''00010203-0405-4607-8809-0a0b0c0d0e0f''"
    by (simp add: get_thread_id_def uuid4_Inr uuid4_world0 str_uuid_world0)
  have present: "fst (get_thread_id (Some (py ''abc123'')) (world0 ())) = Inr ''0d578a70-6e15-559e-84db-77e9d0956ee9''"
    by (simp add: get_thread_id_example)
  show ?thesis
    using absent present get_thread_id_canonical [OF absent] get_thread_id_canonical [OF present]
    by simp
qed

section \<open>Event observers\<close>

text \<open>
  Claim C5. When the event's new state is \<open>speaking\<close>, the user-state observer prints
  the one line \<open>User started speaking\<close> and changes nothing else; when the new state is
  none of \<open>speaking\<close>, \<open>listening\<close>, \<open>away\<close>, it prints nothing and changes nothing.
\<close>

theorem user_state_observer:
  "(new_state ev = ''speaking'' \<longrightarrow>
      on_user_state_changed ev w = w\<lparr>stdout := stdout w @ [''User started speaking'']\<rparr>) \<and>
   (new_state ev \<notin> {''speaking'', ''listening'', ''away''} \<longrightarrow>
      on_user_state_changed ev w = w)"
  by (simp add: on_user_state_changed_def print_line_def)

theorem user_state_observer_witness:
  "new_state \<lparr>old_state = ''listening'', new_state = ''speaking''\<rparr> = ''speaking'' \<and>
   stdout (on_user_state_changed \<lparr>old_state = ''listening'', new_state = ''speaking''\<rparr> (world0 ()))
     = [''User started speaking''] \<and>
   new_state \<lparr>old_state = ''speaking'', new_state = ''singing''\<rparr>
     \<notin> {''speaking'', ''listening'', ''away''} \<and>
   on_user_state_changed \<lparr>old_state = ''speaking'', new_state = ''singing''\<rparr> (world0 ())
     = world0 ()"
  using user_state_observer [of "\<lparr>old_state = ''listening'', new_state = ''speaking''\<rparr>" "world0 ()"]
    user_state_observer [of "\<lparr>old_state = ''speaking'', new_state = ''singing''\<rparr>" "world0 ()"]
  by (simp add: world0_def)

lemma agent_cycle_once:
  assumes "map new_state evs =
             ''initializing'' # ''idle'' # ''listening'' # ''thinking'' # ''speaking'' # ns"
  shows "\<exists>rest. map new_state rest = ns \<and>
           fold on_agent_state_changed evs w =
             fold on_agent_state_changed rest
               (w\<lparr>stdout := stdout w @
                    [''Agent is starting up'',
                     ''Agent is ready but not processing'',
                     ''Agent is listening for user input'',
                     ''Agent is processing user input and generating a response'',
                     ''Agent started speaking'']\<rparr>)"
proof -
  from assms obtain e1 e2 e3 e4 e5 rest where
    evs: "evs = e1 # e2 # e3 # e4 # e5 # rest" and
    st: "new_state e1 = ''initializing''" "new_state e2 = ''idle''"
        "new_state e3 = ''listening''" "new_state e4 = ''thinking''"
        "new_state e5 = ''speaking''" and
    rest: "map new_state rest = ns"
    by (auto simp: map_eq_Cons_conv)
  have "fold on_agent_state_changed evs w =
          fold on_agent_state_changed rest
            (on_agent_state_changed e5 (on_agent_state_changed e4 (on_agent_state_changed e3
               (on_agent_state_changed e2 (on_agent_state_changed e1 w)))))"
    by (simp add: evs)
  also have "on_agent_state_changed e5 (on_agent_state_changed e4 (on_agent_state_changed e3
               (on_agent_state_changed e2 (on_agent_state_changed e1 w)))) =
             w\<lparr>stdout := stdout w @
                    [''Agent is starting up'',
                     ''Agent is ready but not processing'',
                     ''Agent is listening for user input'',
                     ''Agent is processing user input and generating a response'',
                     ''Agent started speaking'']\<rparr>"
    by (simp add: on_agent_state_changed_def print_line_def st)
  finally show ?thesis using rest by blast
qed

text \<open>
  Claim C6. For a sequence of agent-state events that runs through \<open>initializing\<close>,
  \<open>idle\<close>, \<open>listening\<close>, \<open>thinking\<close>, \<open>speaking\<close> any number of times, the
  agent-state observer prints the five corresponding lines once per cycle, in the order
  of the events, and changes nothing else.
\<close>

theorem agent_state_observer_cycles:
  "map new_state evs =
     concat (replicate k [''initializing'', ''idle'', ''listening'', ''thinking'', ''speaking''])
   \<Longrightarrow> fold on_agent_state_changed evs w =
         w\<lparr>stdout := stdout w @
              concat (replicate k
                [''Agent is starting up'',
                 ''Agent is ready but not processing'',
                 ''Agent is listening for user input'',
                 ''Agent is processing user input and generating a response'',
                 ''Agent started speaking''])\<rparr>"
proof (induction k arbitrary: evs w)
  case 0
  then show ?case by simp
next
  case (Suc k)
  from Suc.prems agent_cycle_once [of evs _ w] obtain rest where
    rest: "map new_state rest =
             concat (replicate k [''initializing'', ''idle'', ''listening'', ''thinking'', ''speaking''])"
    and step: "fold on_agent_state_changed evs w =
             fold on_agent_state_changed rest
               (w\<lparr>stdout := stdout w @
                    [''Agent is starting up'',
                     ''Agent is ready but not processing'',
                     ''Agent is listening for user input'',
                     ''Agent is processing user input and generating a response'',
                     ''Agent started speaking'']\<rparr>)"
    by auto
  show ?case
    by (simp add: step Suc.IH [OF rest])
qed

theorem agent_state_observer_cycles_witness:
  "map new_state
     [\<lparr>old_state = ''speaking'', new_state = ''initializing''\<rparr>,
      \<lparr>old_state = ''initializing'', new_state = ''idle''\<rparr>,
      \<lparr>old_state = ''idle'', new_state = ''listening''\<rparr>,
      \<lparr>old_state = ''listening'', new_state = ''thinking''\<rparr>,
      \<lparr>old_state = ''thinking'', new_state = ''speaking''\<rparr>] =
     concat (replicate 1 [''initializing'', ''idle'', ''listening'', ''thinking'', ''speaking'']) \<and>
   stdout (fold on_agent_state_changed
     [\<lparr>old_state = ''speaking'', new_state = ''initializing''\<rparr>,
      \<lparr>old_state = ''initializing'', new_state = ''idle''\<rparr>,
      \<lparr>old_state = ''idle'', new_state = ''listening''\<rparr>,
      \<lparr>old_state = ''listening'', new_state = ''thinking''\<rparr>,
      \<lparr>old_state = ''thinking'', new_state = ''speaking''\<rparr>] (world0 ())) =
     [''Agent is starting up'',
      ''Agent is ready but not processing'',
      ''Agent is listening for user input'',
      ''Agent is processing user input and generating a response'',
      ''Agent started speaking'']"
proof -
  have h: "map new_state
     [\<lparr>old_state = ''speaking'', new_state = ''initializing''\<rparr>,
      \<lparr>old_state = ''initializing'', new_state = ''idle''\<rparr>,
      \<lparr>old_state = ''idle'', new_state = ''listening''\<rparr>,
      \<lparr>old_state = ''listening'', new_state = ''thinking''\<rparr>,
      \<lparr>old_state = ''thinking'', new_state = ''speaking''\<rparr>] =
     concat (replicate 1 [''initializing'', ''idle'', ''listening'', ''thinking'', ''speaking''])"
    by simp
  show ?thesis
    using h agent_state_observer_cycles [OF h, of "world0 ()"]
    by (simp add: world0_def)
qed

text \<open>
  Claim C7, as stated, fails for the metrics callback: it hands the metrics to the
  captured usage collector, whose state changes. With a collector that keeps running
  totals, collecting the metrics of one language-model call leaves the collector
  different from before.
\<close>

theorem metrics_callback_updates_collector:
  "usage_collector (on_metrics_collected (\<lambda>_. []) usage_collect (LLM_metrics 12 7)
                      (world0 usage_empty))
     \<noteq> usage_collector (world0 usage_empty)"
  by (simp add: on_metrics_collected_def world0_def usage_empty_def Let_def)

text \<open>
  Claim C7, amended. The user-state and the agent-state observer change nothing but
  standard output, to which they append at most one line. The metrics callback appends
  the lines of \<open>log_metrics\<close> to the log and replaces the usage collector by the result of
  \<open>collect\<close>; it changes nothing else.
\<close>

theorem observers_frame:
  "(\<exists>lines. on_user_state_changed ev w = w\<lparr>stdout := stdout w @ lines\<rparr> \<and> length lines \<le> 1) \<and>
   (\<exists>lines. on_agent_state_changed ev w = w\<lparr>stdout := stdout w @ lines\<rparr> \<and> length lines \<le> 1) \<and>
   on_metrics_collected log_metrics collect m w =
     w\<lparr>logged := logged w @ log_metrics m,
       usage_collector := collect m (usage_collector w)\<rparr>"
proof (intro conjI)
  show "\<exists>lines. on_user_state_changed ev w = w\<lparr>stdout := stdout w @ lines\<rparr> \<and> length lines \<le> 1"
  proof (cases "new_state ev \<in> {''speaking'', ''listening'', ''away''}")
    case True
    then show ?thesis
      by (auto simp: on_user_state_changed_def print_line_def)
  next
    case False
    then have "on_user_state_changed ev w = w\<lparr>stdout := stdout w @ []\<rparr>"
      by (simp add: on_user_state_changed_def)
    then show ?thesis by (intro exI [of _ "[]"]) simp
  qed
  show "\<exists>lines. on_agent_state_changed ev w = w\<lparr>stdout := stdout w @ lines\<rparr> \<and> length lines \<le> 1"
  proof (cases "new_state ev \<in> {''initializing'', ''idle'', ''listening'', ''thinking'', ''speaking''}")
    case True
    then show ?thesis
      by (auto simp: on_agent_state_changed_def print_line_def)
  next
    case False
    then have "on_agent_state_changed ev w = w\<lparr>stdout := stdout w @ []\<rparr>"
      by (simp add: on_agent_state_changed_def)
    then show ?thesis by (intro exI [of _ "[]"]) simp
  qed
  show "on_metrics_collected log_metrics collect m w =
     w\<lparr>logged := logged w @ log_metrics m,
       usage_collector := collect m (usage_collector w)\<rparr>"
    by (simp add: on_metrics_collected_def Let_def)
qed

section \<open>The agent's greeting\<close>

text \<open>
  Claim C10. Running \<open>on_enter\<close> makes exactly one call into the session, a
  \<open>generate_reply\<close> with the greeting as instructions and interruptions allowed, and
  changes nothing else.
\<close>

theorem on_enter_greets_once:
  "snd (on_enter e w) =
     w\<lparr>calls := calls w @ [Generate_reply ''Hey, how can I help you today?'' True]\<rparr>"
  by (simp add: on_enter_def sdk_call_def split: option.splits)

section \<open>Startup sequence\<close>

lemma entrypoint_calls_split:
  "entrypoint_calls e ctx tid v = connect_calls @ graph_calls e @ session_calls e ctx tid v"
  by (simp add: entrypoint_calls_def connect_calls_def graph_calls_def session_calls_def Let_def)

lemma first_error_None:
  "(first_error e cs = None) = list_all (\<lambda>c. raises e c = None) cs"
  by (induction cs) (auto split: option.splits)

lemma attempted_all: "first_error e cs = None \<Longrightarrow> attempted e cs = cs"
  by (induction cs) (auto split: option.splits)

lemma attempted_prefix: "prefix (attempted e cs) cs"
  by (induction cs) (auto split: option.splits)

lemma get_thread_id_after_calls:
  "get_thread_id s (w\<lparr>logged := l, calls := c\<rparr>) =
     (fst (get_thread_id s w), (snd (get_thread_id s w))\<lparr>logged := l, calls := c\<rparr>)"
  by (cases s) (simp_all add: get_thread_id_def uuid4_def os_urandom_def)

lemma bind_prog_assoc:
  "bind_prog (bind_prog m f) g = bind_prog m (\<lambda>x. bind_prog (f x) g)"
  by (auto simp: bind_prog_def fun_eq_iff split: prod.splits sum.splits)

lemma bind_prog_return: "bind_prog (return_prog x) f = f x"
  by (simp add: bind_prog_def return_prog_def fun_eq_iff)

lemma bind_prog_unit: "bind_prog m return_prog = m"
  by (auto simp: bind_prog_def return_prog_def fun_eq_iff split: prod.splits sum.splits)

lemma sdk_calls_outcome:
  "sdk_calls e cs w =
     ((case first_error e cs of Some err \<Rightarrow> Inl err | None \<Rightarrow> Inr ()),
      w\<lparr>calls := calls w @ attempted e cs\<rparr>)"
proof (induction cs arbitrary: w)
  case Nil
  show ?case by (simp add: return_prog_def)
next
  case (Cons c cs)
  show ?case
    by (simp add: bind_prog_def sdk_call_def Cons.IH split: option.splits)
qed

lemma entrypoint_phases:
  "entrypoint new_collector e ctx =
     bind_prog (logger_info (''connecting to room '' @ room_name ctx)) (\<lambda>_.
     bind_prog (sdk_calls e connect_calls) (\<lambda>_.
     bind_prog (get_thread_id (sid (next_participant e))) (\<lambda>thread_id.
     bind_prog (logger_info (''starting voice assistant for participant ''
                               @ identity (next_participant e))) (\<lambda>_.
     bind_prog (sdk_call e UsageCollector_new) (\<lambda>_.
     bind_prog (\<lambda>w. (Inr (), w\<lparr>usage_collector := new_collector\<rparr>)) (\<lambda>_.
     bind_prog (sdk_call e (RemoteGraph_new ''stepwork_assistant'' (remote_graph_url e))) (\<lambda>_.
     bind_prog (lookup (userdata ctx) ''vad'' KeyError) (\<lambda>v.
     sdk_calls e (session_calls e ctx thread_id v)))))))))"
  by (simp add: entrypoint_def connect_calls_def session_calls_def Let_def Assistant_new_def
        bind_prog_assoc bind_prog_return bind_prog_unit)

lemma entrypoint_outcome:
  assumes run: "entrypoint new_collector e ctx w = (r, w')"
  shows "case first_error e connect_calls of
           Some err \<Rightarrow>
             r = Inl err \<and> calls w' = calls w @ attempted e connect_calls \<and>
             consumed w' = consumed w
         | None \<Rightarrow>
             (case fst (get_thread_id (sid (next_participant e)) w) of
                Inl err \<Rightarrow> r = Inl err \<and> calls w' = calls w @ connect_calls
              | Inr tid \<Rightarrow>
                  consumed w' = consumed (snd (get_thread_id (sid (next_participant e)) w)) \<and>
                  (case first_error e (graph_calls e) of
                     Some err \<Rightarrow>
                       r = Inl err \<and>
                       calls w' = calls w @ connect_calls @ attempted e (graph_calls e)
                   | None \<Rightarrow>
                       (case userdata ctx ''vad'' of
                          None \<Rightarrow>
                            r = Inl (KeyError ''vad'') \<and>
                            calls w' = calls w @ connect_calls @ graph_calls e
                        | Some v \<Rightarrow>
                            r = (case first_error e (session_calls e ctx tid v) of
                                   Some err \<Rightarrow> Inl err
                                 | None \<Rightarrow> Inr ()) \<and>
                            calls w' =
                              calls w @ connect_calls @ graph_calls e
                                @ attempted e (session_calls e ctx tid v))))"
proof -
  let ?p = "next_participant e"
  let ?l1 = "logged w @ [''connecting to room '' @ room_name ctx]"
  have tid_fst: "\<And>l c. fst (get_thread_id (sid ?p) (w\<lparr>logged := l, calls := c\<rparr>)) =
                   fst (get_thread_id (sid ?p) w)"
    by (simp add: get_thread_id_after_calls)
  have tid_snd: "\<And>l c. snd (get_thread_id (sid ?p) (w\<lparr>logged := l, calls := c\<rparr>)) =
                   (snd (get_thread_id (sid ?p) w))\<lparr>logged := l, calls := c\<rparr>"
    by (simp add: get_thread_id_after_calls)
  show ?thesis
  proof (cases "first_error e connect_calls")
    case (Some err)
    with run show ?thesis
      by (auto simp: entrypoint_phases bind_prog_def logger_info_def sdk_calls_outcome)
  next
    case None
    note connected = None
    then have att: "attempted e connect_calls = connect_calls"
      by (rule attempted_all)
    show ?thesis
    proof (cases "fst (get_thread_id (sid ?p) w)")
      case (Inl err)
      with run connected att show ?thesis
        by (auto simp: entrypoint_phases bind_prog_def logger_info_def sdk_calls_outcome
              get_thread_id_after_calls)
    next
      case (Inr tid)
      show ?thesis
      proof (cases "first_error e (graph_calls e)")
        case (Some err)
        with run connected att Inr show ?thesis
          by (auto simp: entrypoint_phases bind_prog_def logger_info_def sdk_calls_outcome
                get_thread_id_after_calls sdk_call_def graph_calls_def
              split: option.splits)
      next
        case None
        note graphed = None
        show ?thesis
        proof (cases "userdata ctx ''vad''")
          case None
          with run connected att Inr graphed show ?thesis
            by (auto simp: entrypoint_phases bind_prog_def logger_info_def sdk_calls_outcome
                  get_thread_id_after_calls sdk_call_def graph_calls_def lookup_def
                split: option.splits)
        next
          case (Some v)
          with run connected att Inr graphed show ?thesis
            by (auto simp: entrypoint_phases bind_prog_def logger_info_def sdk_calls_outcome
                  get_thread_id_after_calls sdk_call_def graph_calls_def lookup_def
                split: option.splits)
        qed
      qed
    qed
  qed
qed

lemma get_thread_id_value:
  "fst (get_thread_id s w) =
     (case s of
        Some n \<Rightarrow> map_sum id str_uuid (uuid5 NAMESPACE n)
      | None \<Rightarrow>
          Inr (str_uuid (set_version 4
                 (int_from_bytes (map (\<lambda>i. urandom w (consumed w + i)) [0..<16])))))"
  by (cases s) (simp_all add: get_thread_id_def uuid4_Inr)

lemma entrypoint_calls_distinct: "distinct (entrypoint_calls e ctx tid v)"
  by (simp add: entrypoint_calls_def Let_def)

text \<open>
  Claim C8. A run of \<open>entrypoint\<close> goes through its steps in one fixed order and stops
  at the first step that raises, with that step's error:
  \<^item> it connects and then waits for a participant;
  \<^item> only then it derives the thread identifier from the session id of that participant
    (when the connection fails, nothing is derived and no random byte is taken; when the
    derivation raises, the run ends with the two calls made so far);
  \<^item> then it creates the usage collector and constructs the remote graph;
  \<^item> then it reads the voice-activity detector from the process data;
  \<^item> then it constructs the adapter and the session from that graph and the derived
    identifier, registers the three observers, builds the agent and the room options,
    and starts the session.
  The run returns normally exactly when the derivation succeeds, the detector is there
  and none of the calls raises; it has then made the whole sequence, in which no call
  occurs twice. The derived identifier is the version-5 identifier of the participant's
  session id, or a version-4 identifier from the next 16 random bytes when there is none.
\<close>

theorem entrypoint_order:
  assumes run: "entrypoint new_collector e ctx w = (r, w')"
  shows
    "(case first_error e connect_calls of
        Some err \<Rightarrow>
          r = Inl err \<and> calls w' = calls w @ attempted e connect_calls \<and>
          consumed w' = consumed w
      | None \<Rightarrow>
          (case fst (get_thread_id (sid (next_participant e)) w) of
             Inl err \<Rightarrow> r = Inl err \<and> calls w' = calls w @ connect_calls
           | Inr tid \<Rightarrow>
               consumed w' = consumed (snd (get_thread_id (sid (next_participant e)) w)) \<and>
               (case first_error e (graph_calls e) of
                  Some err \<Rightarrow>
                    r = Inl err \<and>
                    calls w' = calls w @ connect_calls @ attempted e (graph_calls e)
                | None \<Rightarrow>
                    (case userdata ctx ''vad'' of
                       None \<Rightarrow>
                         r = Inl (KeyError ''vad'') \<and>
                         calls w' = calls w @ connect_calls @ graph_calls e
                     | Some v \<Rightarrow>
                         r = (case first_error e (session_calls e ctx tid v) of
                                Some err \<Rightarrow> Inl err
                              | None \<Rightarrow> Inr ()) \<and>
                         calls w' =
                           calls w @ connect_calls @ graph_calls e
                             @ attempted e (session_calls e ctx tid v))))) \<and>
     (r = Inr ()) =
       (\<exists>tid v. fst (get_thread_id (sid (next_participant e)) w) = Inr tid \<and>
                userdata ctx ''vad'' = Some v \<and>
                list_all (\<lambda>c. raises e c = None) (entrypoint_calls e ctx tid v)) \<and>
     (\<forall>tid v. fst (get_thread_id (sid (next_participant e)) w) = Inr tid \<longrightarrow>
              userdata ctx ''vad'' = Some v \<longrightarrow>
                prefix (calls w') (calls w @ entrypoint_calls e ctx tid v) \<and>
                distinct (entrypoint_calls e ctx tid v) \<and>
                (r = Inr () \<longrightarrow> calls w' = calls w @ entrypoint_calls e ctx tid v)) \<and>
     fst (get_thread_id (sid (next_participant e)) w) =
       (case sid (next_participant e) of
          Some s \<Rightarrow> map_sum id str_uuid (uuid5 NAMESPACE s)
        | None \<Rightarrow>
            Inr (str_uuid (set_version 4
                   (int_from_bytes (map (\<lambda>i. urandom w (consumed w + i)) [0..<16])))))"
proof (intro conjI)
  note outcome = entrypoint_outcome [OF run]
  have all_clear: "\<And>tid v. list_all (\<lambda>c. raises e c = None) (entrypoint_calls e ctx tid v) =
      (first_error e connect_calls = None \<and> first_error e (graph_calls e) = None \<and>
       first_error e (session_calls e ctx tid v) = None)"
    by (simp add: entrypoint_calls_split first_error_None)
  show "case first_error e connect_calls of
        Some err \<Rightarrow>
          r = Inl err \<and> calls w' = calls w @ attempted e connect_calls \<and>
          consumed w' = consumed w
      | None \<Rightarrow>
          (case fst (get_thread_id (sid (next_participant e)) w) of
             Inl err \<Rightarrow> r = Inl err \<and> calls w' = calls w @ connect_calls
           | Inr tid \<Rightarrow>
               consumed w' = consumed (snd (get_thread_id (sid (next_participant e)) w)) \<and>
               (case first_error e (graph_calls e) of
                  Some err \<Rightarrow>
                    r = Inl err \<and>
                    calls w' = calls w @ connect_calls @ attempted e (graph_calls e)
                | None \<Rightarrow>
                    (case userdata ctx ''vad'' of
                       None \<Rightarrow>
                         r = Inl (KeyError ''vad'') \<and>
                         calls w' = calls w @ connect_calls @ graph_calls e
                     | Some v \<Rightarrow>
                         r = (case first_error e (session_calls e ctx tid v) of
                                Some err \<Rightarrow> Inl err
                              | None \<Rightarrow> Inr ()) \<and>
                         calls w' =
                           calls w @ connect_calls @ graph_calls e
                             @ attempted e (session_calls e ctx tid v))))"
    by (rule outcome)
  show "(r = Inr ()) =
       (\<exists>tid v. fst (get_thread_id (sid (next_participant e)) w) = Inr tid \<and>
                userdata ctx ''vad'' = Some v \<and>
                list_all (\<lambda>c. raises e c = None) (entrypoint_calls e ctx tid v))"
    using outcome
    by (cases "first_error e connect_calls";
        cases "fst (get_thread_id (sid (next_participant e)) w)";
        cases "first_error e (graph_calls e)";
        cases "userdata ctx ''vad''")
       (auto simp: all_clear split: option.splits)
  show "\<forall>tid v. fst (get_thread_id (sid (next_participant e)) w) = Inr tid \<longrightarrow>
              userdata ctx ''vad'' = Some v \<longrightarrow>
                prefix (calls w') (calls w @ entrypoint_calls e ctx tid v) \<and>
                distinct (entrypoint_calls e ctx tid v) \<and>
                (r = Inr () \<longrightarrow> calls w' = calls w @ entrypoint_calls e ctx tid v)"
  proof (intro allI impI)
    fix tid v
    assume tid: "fst (get_thread_id (sid (next_participant e)) w) = Inr tid"
      and v: "userdata ctx ''vad'' = Some v"
    have p1: "prefix (attempted e connect_calls)
                (connect_calls @ graph_calls e @ session_calls e ctx tid v)"
      using attempted_prefix [of e connect_calls] by (rule prefix_order.trans) simp
    have p2: "prefix (connect_calls @ attempted e (graph_calls e))
                (connect_calls @ graph_calls e @ session_calls e ctx tid v)"
      using attempted_prefix [of e "graph_calls e"] by (auto intro: prefix_order.trans)
    have p3: "prefix (connect_calls @ graph_calls e @ attempted e (session_calls e ctx tid v))
                (connect_calls @ graph_calls e @ session_calls e ctx tid v)"
      using attempted_prefix [of e "session_calls e ctx tid v"] by simp
    show "prefix (calls w') (calls w @ entrypoint_calls e ctx tid v) \<and>
          distinct (entrypoint_calls e ctx tid v) \<and>
          (r = Inr () \<longrightarrow> calls w' = calls w @ entrypoint_calls e ctx tid v)"
      using outcome tid v p1 p2 p3 entrypoint_calls_distinct [of e ctx tid v]
      by (cases "first_error e connect_calls"; cases "first_error e (graph_calls e)";
          cases "first_error e (session_calls e ctx tid v)")
         (simp_all add: entrypoint_calls_split attempted_all)
  qed
  show "fst (get_thread_id (sid (next_participant e)) w) =
       (case sid (next_participant e) of
          Some s \<Rightarrow> map_sum id str_uuid (uuid5 NAMESPACE s)
        | None \<Rightarrow>
            Inr (str_uuid (set_version 4
                   (int_from_bytes (map (\<lambda>i. urandom w (consumed w + i)) [0..<16])))))"
    by (rule get_thread_id_value)
qed

text \<open>
  Three runs: one in which nothing raises, one in which the connection fails although
  the session id could not have been encoded either, and one that stops at the
  derivation.
\<close>

theorem entrypoint_order_witness:
  "entrypoint () env0 ctx0 (world0 ()) =
     (Inr (),
      (world0 ())\<lparr>logged := [''connecting to room room-1'',
                              ''starting voice assistant for participant user-1''],
                   calls := entrypoint_calls env0 ctx0 ''0d578a70-6e15-559e-84db-77e9d0956ee9'' Silero_VAD\<rparr>) \<and>
   fst (get_thread_id (sid (next_participant env0)) (world0 ())) =
     Inr ''0d578a70-6e15-559e-84db-77e9d0956ee9'' \<and>
   userdata ctx0 ''vad'' = Some Silero_VAD \<and>
   list_all (\<lambda>c. raises env0 c = None)
     (entrypoint_calls env0 ctx0 ''0d578a70-6e15-559e-84db-77e9d0956ee9'' Silero_VAD) \<and>
   entrypoint () env1 ctx0 (world0 ()) =
     (Inl (LibraryError ''connect''),
      (world0 ())\<lparr>logged := [''connecting to room room-1''],
                   calls := [Ctx_connect AUDIO_ONLY]\<rparr>) \<and>
   first_error env1 connect_calls = Some (LibraryError ''connect'') \<and>
   attempted env1 connect_calls = [Ctx_connect AUDIO_ONLY] \<and>
   entrypoint () env2 ctx0 (world0 ()) =
     (Inl (UnicodeEncodeError 0),
      (world0 ())\<lparr>logged := [''connecting to room room-1''],
                   calls := [Ctx_connect AUDIO_ONLY, Ctx_wait_for_participant]\<rparr>) \<and>
   first_error env2 connect_calls = None \<and>
   fst (get_thread_id (sid (next_participant env2)) (world0 ())) = Inl (UnicodeEncodeError 0)"
proof -
  let ?tid = "''0d578a70-6e15-559e-84db-77e9d0956ee9''"
  have run0: "entrypoint () env0 ctx0 (world0 ()) =
     (Inr (),
      (world0 ())\<lparr>logged := [''connecting to room room-1'',
                              ''starting voice assistant for participant user-1''],
                   calls := entrypoint_calls env0 ctx0 ?tid Silero_VAD\<rparr>)"
    by (simp add: entrypoint_def bind_prog_def sdk_call_def logger_info_def lookup_def
          return_prog_def Assistant_new_def entrypoint_calls_def Let_def env0_def ctx0_def
          world0_def get_thread_id_example)
  have tid0: "fst (get_thread_id (sid (next_participant env0)) (world0 ())) = Inr ?tid"
    by (simp add: env0_def get_thread_id_example)
  have tid2: "fst (get_thread_id (sid (next_participant env2)) (world0 ())) =
                Inl (UnicodeEncodeError 0)"
    by (simp add: env2_def get_thread_id_def uuid5_def bytes_utf8_def utf8_char_def
          is_surrogate_def)
  have run1: "entrypoint () env1 ctx0 (world0 ()) =
     (Inl (LibraryError ''connect''),
      (world0 ())\<lparr>logged := [''connecting to room room-1''],
                   calls := [Ctx_connect AUDIO_ONLY]\<rparr>)"
    by (simp add: entrypoint_def bind_prog_def sdk_call_def logger_info_def env1_def ctx0_def
          world0_def)
  have surrogate: "\<And>u :: unit world. get_thread_id (Some [0xD800]) u = (Inl (UnicodeEncodeError 0), u)"
    by (simp add: get_thread_id_def uuid5_def bytes_utf8_def utf8_char_def is_surrogate_def)
  have run2: "entrypoint () env2 ctx0 (world0 ()) =
     (Inl (UnicodeEncodeError 0),
      (world0 ())\<lparr>logged := [''connecting to room room-1''],
                   calls := [Ctx_connect AUDIO_ONLY, Ctx_wait_for_participant]\<rparr>)"
    by (simp add: entrypoint_def bind_prog_def sdk_call_def logger_info_def env2_def ctx0_def
          world0_def surrogate)
  have small:
    "userdata ctx0 ''vad'' = Some Silero_VAD"
    "first_error env1 connect_calls = Some (LibraryError ''connect'')"
    "attempted env1 connect_calls = [Ctx_connect AUDIO_ONLY]"
    "first_error env2 connect_calls = None"
    by (simp_all add: ctx0_def env1_def env2_def connect_calls_def)
  have "\<exists>tid v. fst (get_thread_id (sid (next_participant env0)) (world0 ())) = Inr tid \<and>
            userdata ctx0 ''vad'' = Some v \<and>
            list_all (\<lambda>c. raises env0 c = None) (entrypoint_calls env0 ctx0 tid v)"
    using entrypoint_order [OF run0, THEN conjunct2, THEN conjunct1] by simp
  then have ok: "list_all (\<lambda>c. raises env0 c = None) (entrypoint_calls env0 ctx0 ?tid Silero_VAD)"
    using tid0 small(1) by auto
  have stop1: "calls ((world0 ())\<lparr>logged := [''connecting to room room-1''],
                   calls := [Ctx_connect AUDIO_ONLY]\<rparr>) =
                 calls (world0 ()) @ attempted env1 connect_calls"
    using entrypoint_order [OF run1, THEN conjunct1] small by simp
  have stop2: "calls ((world0 ())\<lparr>logged := [''connecting to room room-1''],
                   calls := [Ctx_connect AUDIO_ONLY, Ctx_wait_for_participant]\<rparr>) =
                 calls (world0 ()) @ connect_calls"
    using entrypoint_order [OF run2, THEN conjunct1] small tid2 by simp
  show ?thesis
    using run0 run1 run2 tid0 tid2 small ok stop1 stop2 by simp
qed

end
